theory Spec2Isabelle
  imports Complex_Main "HOL-Library.Sublist" "HOL-Library.AList"
begin

section \<open>JavaScript values\<close>

text \<open>
  The server is the CommonJS module \<^verbatim>\<open>index.js\<close>. Its handlers work on strings (header
  values, URL paths), on the untyped result of \<^verbatim>\<open>JSON.parse\<close> and on a Node response
  object. A JavaScript string is modelled as a \<^typ>\<open>string\<close> (no property below depends
  on the character set); a thrown exception is the \<open>Inl\<close> branch of a sum. Logging is left
  out.
\<close>

datatype js_error = TypeError | SyntaxError | LibraryError

datatype jsval =
    JUndefined
  | JNull
  | JBool bool
  | JNum real
  | JStr string
  | JArr "jsval list"
  | JObj "(string \<times> jsval) list"

text \<open>
  \<^verbatim>\<open>!v\<close> is \<open>\<not> truthy v\<close>. A number is falsy when it is zero (\<^verbatim>\<open>JSON.parse\<close> never
  yields NaN), a string when it is empty; arrays and objects are always truthy.
\<close>

fun truthy :: "jsval \<Rightarrow> bool" where
  "truthy JUndefined = False"
| "truthy JNull = False"
| "truthy (JBool b) = b"
| "truthy (JNum r) = (r \<noteq> 0)"
| "truthy (JStr s) = (s \<noteq> [])"
| "truthy (JArr vs) = True"
| "truthy (JObj kvs) = True"

text \<open>
  \<^verbatim>\<open>v.key\<close>: reading a property of \<^verbatim>\<open>undefined\<close> or \<^verbatim>\<open>null\<close> throws a TypeError; an
  object gives the value stored under the key (the first binding of the key in the list),
  or \<^verbatim>\<open>undefined\<close>; every other value has no property of the names read here (the only
  key the server reads is \<^verbatim>\<open>pubkey\<close>).
\<close>

fun get_property :: "jsval \<Rightarrow> string \<Rightarrow> js_error + jsval" where
  "get_property JUndefined key = Inl TypeError"
| "get_property JNull key = Inl TypeError"
| "get_property (JObj kvs) key = Inr (case map_of kvs key of None \<Rightarrow> JUndefined | Some v \<Rightarrow> v)"
| "get_property v key = Inr JUndefined"

text \<open>\<^verbatim>\<open>xs[i]\<close> on an array of strings: \<^verbatim>\<open>undefined\<close> out of range.\<close>

definition array_get :: "string list \<Rightarrow> nat \<Rightarrow> jsval" where
  "array_get xs i = (if i < length xs then JStr (xs ! i) else JUndefined)"

section \<open>String primitives\<close>

text \<open>
  \<^verbatim>\<open>s.split(sep)\<close> for a one-character separator: the pieces between the separators, empty
  pieces included; the empty string gives one empty piece.
\<close>

fun js_split :: "char \<Rightarrow> string \<Rightarrow> string list" where
  "js_split sep [] = [[]]"
| "js_split sep (c # cs) =
     (if c = sep then [] # js_split sep cs
      else (case js_split sep cs of [] \<Rightarrow> [[c]] | w # ws \<Rightarrow> (c # w) # ws))"

text \<open>
  \<^verbatim>\<open>s.replace(pat, rep)\<close> with a string pattern: the leftmost occurrence of \<open>pat\<close> is
  replaced, nothing else. (The replacement is taken literally; the server only ever passes
  the empty replacement, which has no \<^verbatim>\<open>$\<close> patterns.)
\<close>

fun js_replace :: "string \<Rightarrow> string \<Rightarrow> string \<Rightarrow> string" where
  "js_replace pat rep [] = (if pat = [] then rep else [])"
| "js_replace pat rep (c # cs) =
     (if prefix pat (c # cs) then rep @ drop (length pat) (c # cs)
      else c # js_replace pat rep cs)"

section \<open>Content types and the namespace authorizer\<close>

definition getContentType :: "string \<Rightarrow> string" where
  "getContentType ext =
     (if ext = ''.txt'' then ''text/plain''
      else if ext = ''.html'' then ''text/html''
      else if ext = ''.json'' then ''application/json''
      else ''application/octet-stream'')"

definition isValidTargetDir :: "string \<Rightarrow> jsval \<Rightarrow> bool" where
  "isValidTargetDir targetDir nostr =
     (let targetSegments = filter (\<lambda>segment. segment \<noteq> []) (js_split CHR ''/'' targetDir)
      in length targetSegments = 1 \<and> array_get targetSegments 0 = nostr)"

section \<open>The runtime the handlers call into\<close>

text \<open>
  \<^verbatim>\<open>Buffer.from(s, 'base64').toString('utf-8')\<close>, \<^verbatim>\<open>JSON.parse\<close> and the
  \<^verbatim>\<open>verifySignature\<close> of nostr-tools are not code of this repository: they are parameters
  of the model. Decoding never throws on a string; parsing throws a SyntaxError on text that
  is not JSON; the verifier returns a boolean or throws.
\<close>

record runtime =
  base64_decode :: "string \<Rightarrow> string"
  json_parse :: "string \<Rightarrow> js_error + jsval"
  verifySignature :: "jsval \<Rightarrow> js_error + bool"

text \<open>
  The \<^verbatim>\<open>path\<close> module is an argument of both handlers in the source, and is one here.
\<close>

record path_module =
  path_join :: "string list \<Rightarrow> string"
  path_dirname :: "string \<Rightarrow> string"
  path_extname :: "string \<Rightarrow> string"

text \<open>
  The file system. \<^verbatim>\<open>fs.mkdir\<close> and \<^verbatim>\<open>fs.readFile\<close> either throw at the call (Node
  validates the path argument before it starts the operation: a path with a NUL byte is
  refused with a TypeError) or answer later through the callback, with an error or with the
  result. \<^verbatim>\<open>fs.createWriteStream\<close> may throw as well (older Node releases validate the
  path when the stream is created, newer ones report it as an \<^verbatim>\<open>error\<close> event); a stream
  that has been handed the request body fires \<^verbatim>\<open>finish\<close>, fires \<^verbatim>\<open>error\<close>, or fires
  neither (the request is aborted and the stream never ends). The model takes these answers
  as given and records the calls the handler makes, in order.
\<close>

datatype io_error = IOError string

datatype mkdir_outcome = MkdirThrows js_error | MkdirCallback "io_error option"

datatype read_outcome = ReadThrows js_error | ReadCallback "io_error + string"

datatype stream_event = CreateThrows js_error | Finish | StreamError io_error | NoEvent

record file_system =
  fs_mkdir :: "string \<Rightarrow> mkdir_outcome"
  fs_writeStream :: "string \<Rightarrow> string \<Rightarrow> stream_event"
  fs_readFile :: "string \<Rightarrow> read_outcome"

datatype fs_op =
    Mkdir string bool
  | CreateWriteStream string
  | Pipe string

section \<open>The response object\<close>

datatype header_value = Single string | Multiple "string list"

record response =
  statusCode :: nat
  res_headers :: "(string \<times> header_value) list"
  body :: string
  ended :: bool

definition new_response :: response where
  "new_response = \<lparr>statusCode = 200, res_headers = [], body = [], ended = False\<rparr>"

definition setHeader :: "string \<Rightarrow> header_value \<Rightarrow> response \<Rightarrow> response" where
  "setHeader name v res = res\<lparr>res_headers := AList.update name v (res_headers res)\<rparr>"

text \<open>
  \<^verbatim>\<open>res.writeHead(status, obj)\<close> sets the status and adds every entry of \<open>obj\<close> to the
  headers already set. Header names are kept as written; Node compares them without
  regard to case, and the names the server uses differ from one another either way.
\<close>

definition writeHead :: "nat \<Rightarrow> (string \<times> header_value) list \<Rightarrow> response \<Rightarrow> response" where
  "writeHead status obj res =
     (fold (\<lambda>(name, v). setHeader name v) obj res)\<lparr>statusCode := status\<rparr>"

definition res_end :: "string \<Rightarrow> response \<Rightarrow> response" where
  "res_end data res = res\<lparr>body := data, ended := True\<rparr>"

section \<open>The handlers\<close>

definition setCorsHeaders :: "response \<Rightarrow> response" where
  "setCorsHeaders res =
     setHeader ''Access-Control-Allow-Headers'' (Single ''Content-Type, Authorization'')
       (setHeader ''Access-Control-Allow-Methods'' (Single ''GET, PUT, OPTIONS'')
         (setHeader ''Access-Control-Allow-Origin'' (Single ''*'') res))"

definition isValidAuthorizationHeader :: "runtime \<Rightarrow> string \<Rightarrow> js_error + jsval" where
  "isValidAuthorizationHeader rt authorization =
     (let base64String = js_replace ''Nostr '' [] authorization;
          decodedString = base64_decode rt base64String
      in case json_parse rt decodedString of
           Inl e \<Rightarrow> Inl e
         | Inr event \<Rightarrow>
             (case verifySignature rt event of
                Inl e \<Rightarrow> Inl e
              | Inr isVerified \<Rightarrow>
                  if isVerified then get_property event ''pubkey'' else Inr JUndefined))"

definition corsOptions :: "(string \<times> header_value) list" where
  "corsOptions =
     [(''origin'', Single ''https://example.com''),
      (''methods'', Multiple [''GET'', ''PUT'']),
      (''allowedHeaders'', Multiple [''Content-Type''])]"

definition handleOptions :: "'r \<Rightarrow> response \<Rightarrow> response" where
  "handleOptions req res = res_end [] (writeHead 204 corsOptions res)"

definition unauthorized_message :: string where
  \<open>unauthorized_message =
     ''Unauthorized: "nostr" header must be a 32 character lowercase hex string''\<close>

text \<open>
  \<^verbatim>\<open>handlePut(req, res, path, headers, targetDir, rootDir, pathname, path)\<close>: the source
  names two parameters \<^verbatim>\<open>path\<close>; in a CommonJS module the last one is the binding, so
  the third argument (\<open>unused\<close> below) is never read. \<open>req\<close> is the request body. Nothing in
  the handler catches an exception. The result is \<open>Inl\<close> when an exception leaves the
  handler or the callback it passed to \<^verbatim>\<open>fs.mkdir\<close>, and then no response has been
  written; otherwise it is the response as it stands once the callbacks have run (still open
  when no callback ended it), with the file-system calls made.
\<close>

definition handlePut ::
  "runtime \<Rightarrow> file_system \<Rightarrow> string \<Rightarrow> response \<Rightarrow> 'p \<Rightarrow> (string \<rightharpoonup> string) \<Rightarrow> string \<Rightarrow>
   string \<Rightarrow> string \<Rightarrow> path_module \<Rightarrow> js_error + (response \<times> fs_op list)" where
  "handlePut rt fs req res unused headers targetDir rootDir pathname path =
     (case headers ''authorization'' of
        None \<Rightarrow> Inl TypeError
      | Some authorization \<Rightarrow>
          (let nostr = js_replace ''Nostr '' [] authorization in
           case isValidAuthorizationHeader rt authorization of
             Inl e \<Rightarrow> Inl e
           | Inr pubkey \<Rightarrow>
               if nostr = [] \<or> \<not> truthy pubkey then
                 Inr (res_end unauthorized_message (res\<lparr>statusCode := 401\<rparr>), [])
               else if JStr targetDir \<noteq> pubkey then
                 Inr (res_end ''Forbidden: wrong pubkey'' (res\<lparr>statusCode := 403\<rparr>), [])
               else if \<not> isValidTargetDir targetDir pubkey then
                 Inr (res_end ''Forbidden: Target directory structure is invalid''
                   (res\<lparr>statusCode := 403\<rparr>), [])
               else
                 (let targetPath = path_join path [''.'', rootDir, pathname];
                      dir = path_dirname path targetPath
                  in case fs_mkdir fs dir of
                       MkdirThrows e \<Rightarrow> Inl e
                     | MkdirCallback (Some err) \<Rightarrow>
                         Inr (res_end ''Error creating directory'' (res\<lparr>statusCode := 500\<rparr>),
                              [Mkdir dir True])
                     | MkdirCallback None \<Rightarrow>
                         (case fs_writeStream fs targetPath req of
                            CreateThrows e \<Rightarrow> Inl e
                          | Finish \<Rightarrow>
                              Inr (res_end ''File created'' (res\<lparr>statusCode := 201\<rparr>),
                                   [Mkdir dir True, CreateWriteStream targetPath, Pipe req])
                          | StreamError err \<Rightarrow>
                              Inr (res_end ''Error writing file'' (res\<lparr>statusCode := 500\<rparr>),
                                   [Mkdir dir True, CreateWriteStream targetPath, Pipe req])
                          | NoEvent \<Rightarrow>
                              Inr (res, [Mkdir dir True, CreateWriteStream targetPath, Pipe req])))))"

text \<open>
  \<^verbatim>\<open>handleGet(req, res, path, pathname, rootDir)\<close>, with the same reading of the result:
  an exception thrown by \<^verbatim>\<open>fs.readFile\<close> at the call is not caught and leaves the handler.
  (\<^verbatim>\<open>path.join\<close> and \<^verbatim>\<open>path.extname\<close> throw only on arguments that are not strings.)
\<close>

definition handleGet ::
  "file_system \<Rightarrow> 'r \<Rightarrow> response \<Rightarrow> path_module \<Rightarrow> string \<Rightarrow> string \<Rightarrow> js_error + response" where
  "handleGet fs req res path pathname rootDir =
     (let targetPath = path_join path [''.'', rootDir, pathname]
      in case fs_readFile fs targetPath of
           ReadThrows e \<Rightarrow> Inl e
         | ReadCallback (Inl err) \<Rightarrow> Inr (res_end ''File not found'' (res\<lparr>statusCode := 404\<rparr>))
         | ReadCallback (Inr data) \<Rightarrow>
             (let contentType = getContentType (path_extname path targetPath)
              in Inr (res_end data
                   ((setHeader ''Content-Type'' (Single contentType) res)\<lparr>statusCode := 200\<rparr>))))"

section \<open>A sample environment\<close>

text \<open>
  A finite sample of what the runtime does, for running the handlers on concrete requests.

  \<^item> \<open>sample_json\<close> is a Nostr event of kind 1 with empty content, created at 1700000000,
    whose \<^verbatim>\<open>id\<close> is the SHA-256 of its serialisation and whose \<^verbatim>\<open>sig\<close> is the BIP-340
    Schnorr signature of that id under the secret key 3 (public key \<open>sample_pubkey\<close>):
    \<^verbatim>\<open>verifySignature\<close> returns true on it. \<open>sample_credential\<close> is its base64 text.
  \<^item> \<open>forged_json\<close> is the same event with the last digit of the signature changed: it has
    every field, and \<^verbatim>\<open>verifySignature\<close> returns false on it.
  \<^item> \<open>malformed_json\<close> is an object with a \<^verbatim>\<open>pubkey\<close> and a \<^verbatim>\<open>sig\<close> and nothing else:
    nostr-tools cannot serialise it, and \<^verbatim>\<open>verifySignature\<close> throws.
  \<^item> \<^verbatim>\<open>aGVsbG8=\<close> is the base64 text of \<^verbatim>\<open>hello\<close>, which is not JSON, and neither is the
    empty string.

  On every other input the sample decodes to the empty string, fails to parse and throws in
  the verifier; no theorem runs it there.
\<close>

definition sample_pubkey :: string where
  "sample_pubkey = ''f9308a019258c31049344f85f89d5229b531c845836f99b08601f113bce036f9''"

definition sample_credential :: string where
  "sample_credential =
     ''eyJpZCI6Ijk1NjA0NjI2NjM0MjFhYTFmNDFhODE3YjA1MmU0Mzk4N2I0NjVjY2E2MDlmZTNiNjQyZDVmNzkyZTRjOTM5YjYiLCJwdWJrZXkiOiJmOTMwOGEwMTkyNThjMzEwNDkzNDRmODVmODlkNTIyOWI1MzFjODQ1ODM2Zjk5YjA4NjAxZjExM2JjZTAzNmY5IiwiY3JlYXRlZF9hdCI6MTcwMDAwMDAwMCwia2luZCI6MSwidGFncyI6W10sImNvbnRlbnQiOiIiLCJzaWciOiI2MzBiM2I0YTVlMWQ1MjE2ZjcwN2U0ZjEwNzdiOWRhMDIwYTU4YmUyMDQ1ZGQ5YWIwZTY4Zjk5ODc2ZGNmYjQ2Yzc4YjZmMjRlY2FkZjliYjdjNzcwYTNlOGNlNTgyOTQyMjAzYjgxMjMzZTNiODZlNmUzNzBiOTQ5ZmM1MTYxNyJ9''"

definition sample_json :: string where
  \<open>sample_json =
     ''{"id":"9560462663421aa1f41a817b052e43987b465cca609fe3b642d5f792e4c939b6","pubkey":"f9308a019258c31049344f85f89d5229b531c845836f99b08601f113bce036f9","created_at":1700000000,"kind":1,"tags":[],"content":"","sig":"630b3b4a5e1d5216f707e4f1077b9da020a58be2045dd9ab0e68f99876dcfb46c78b6f24ecadf9bb7c770a3e8ce582942203b81233e3b86e6e370b949fc51617"}''\<close>

definition sample_event :: jsval where
  "sample_event =
     JObj [(''id'', JStr ''9560462663421aa1f41a817b052e43987b465cca609fe3b642d5f792e4c939b6''),
           (''pubkey'', JStr sample_pubkey),
           (''created_at'', JNum 1700000000),
           (''kind'', JNum 1),
           (''tags'', JArr []),
           (''content'', JStr []),
           (''sig'', JStr ''630b3b4a5e1d5216f707e4f1077b9da020a58be2045dd9ab0e68f99876dcfb46c78b6f24ecadf9bb7c770a3e8ce582942203b81233e3b86e6e370b949fc51617'')]"

definition forged_credential :: string where
  "forged_credential =
     ''eyJpZCI6Ijk1NjA0NjI2NjM0MjFhYTFmNDFhODE3YjA1MmU0Mzk4N2I0NjVjY2E2MDlmZTNiNjQyZDVmNzkyZTRjOTM5YjYiLCJwdWJrZXkiOiJmOTMwOGEwMTkyNThjMzEwNDkzNDRmODVmODlkNTIyOWI1MzFjODQ1ODM2Zjk5YjA4NjAxZjExM2JjZTAzNmY5IiwiY3JlYXRlZF9hdCI6MTcwMDAwMDAwMCwia2luZCI6MSwidGFncyI6W10sImNvbnRlbnQiOiIiLCJzaWciOiI2MzBiM2I0YTVlMWQ1MjE2ZjcwN2U0ZjEwNzdiOWRhMDIwYTU4YmUyMDQ1ZGQ5YWIwZTY4Zjk5ODc2ZGNmYjQ2Yzc4YjZmMjRlY2FkZjliYjdjNzcwYTNlOGNlNTgyOTQyMjAzYjgxMjMzZTNiODZlNmUzNzBiOTQ5ZmM1MTYxMCJ9''"

definition forged_json :: string where
  \<open>forged_json =
     ''{"id":"9560462663421aa1f41a817b052e43987b465cca609fe3b642d5f792e4c939b6","pubkey":"f9308a019258c31049344f85f89d5229b531c845836f99b08601f113bce036f9","created_at":1700000000,"kind":1,"tags":[],"content":"","sig":"630b3b4a5e1d5216f707e4f1077b9da020a58be2045dd9ab0e68f99876dcfb46c78b6f24ecadf9bb7c770a3e8ce582942203b81233e3b86e6e370b949fc51610"}''\<close>

definition forged_event :: jsval where
  "forged_event =
     JObj [(''id'', JStr ''9560462663421aa1f41a817b052e43987b465cca609fe3b642d5f792e4c939b6''),
           (''pubkey'', JStr sample_pubkey),
           (''created_at'', JNum 1700000000),
           (''kind'', JNum 1),
           (''tags'', JArr []),
           (''content'', JStr []),
           (''sig'', JStr ''630b3b4a5e1d5216f707e4f1077b9da020a58be2045dd9ab0e68f99876dcfb46c78b6f24ecadf9bb7c770a3e8ce582942203b81233e3b86e6e370b949fc51610'')]"

definition malformed_credential :: string where
  "malformed_credential = ''eyJwdWJrZXkiOiJhYmMxMjMiLCJzaWciOiJkZWFkYmVlZiJ9''"

definition malformed_json :: string where
  \<open>malformed_json = ''{"pubkey":"abc123","sig":"deadbeef"}''\<close>

definition malformed_event :: jsval where
  "malformed_event = JObj [(''pubkey'', JStr ''abc123''), (''sig'', JStr ''deadbeef'')]"

definition sample_runtime :: runtime where
  "sample_runtime =
     \<lparr>base64_decode = (\<lambda>s. if s = sample_credential then sample_json
                            else if s = forged_credential then forged_json
                            else if s = malformed_credential then malformed_json
                            else if s = ''aGVsbG8='' then ''hello''
                            else []),
      json_parse = (\<lambda>s. if s = sample_json then Inr sample_event
                         else if s = forged_json then Inr forged_event
                         else if s = malformed_json then Inr malformed_event
                         else Inl SyntaxError),
      verifySignature = (\<lambda>event. if event = sample_event then Inr True
                              else if event = forged_event then Inr False
                              else Inl LibraryError)\<rparr>"

text \<open>
  The POSIX \<^verbatim>\<open>path\<close> functions where the sample uses them: on a root without a slash and
  a request path that is a slash followed by one plain name, \<^verbatim>\<open>path.join('.', root, p)\<close> is
  the root followed by \<open>p\<close>; the directory of \<^verbatim>\<open>data/name\<close> is \<^verbatim>\<open>data\<close>; the extension of
  \<^verbatim>\<open>data/notes.json\<close> is \<^verbatim>\<open>.json\<close>, and a name without a dot has none.
\<close>

definition sample_path :: path_module where
  "sample_path =
     \<lparr>path_join = (\<lambda>parts. case parts of [dot, rootDir, p] \<Rightarrow> rootDir @ p | _ \<Rightarrow> ''.''),
      path_dirname = (\<lambda>p. if prefix ''data/'' p then ''data'' else ''.''),
      path_extname = (\<lambda>p. if p = ''data/notes.json'' then ''.json'' else [])\<rparr>"

text \<open>
  Four file systems. In each, a call with a NUL byte in the path throws a TypeError. In
  \<open>sample_fs\<close> every directory can be created, every write stream finishes, and
  \<^verbatim>\<open>data/notes.json\<close> is the one file stored. \<open>readonly_fs\<close> reports an error for every
  directory, the streams of \<open>full_fs\<close> report an error, and those of \<open>stalled_fs\<close> never end.
\<close>

definition sample_fs :: file_system where
  "sample_fs =
     \<lparr>fs_mkdir = (\<lambda>dir. if CHR 0x00 \<in> set dir then MkdirThrows TypeError
                         else MkdirCallback None),
      fs_writeStream = (\<lambda>p content. Finish),
      fs_readFile = (\<lambda>p. if CHR 0x00 \<in> set p then ReadThrows TypeError
                          else if p = ''data/notes.json'' then ReadCallback (Inr ''{}'')
                          else ReadCallback (Inl (IOError ''ENOENT'')))\<rparr>"

definition readonly_fs :: file_system where
  "readonly_fs =
     sample_fs\<lparr>fs_mkdir := (\<lambda>dir. if CHR 0x00 \<in> set dir then MkdirThrows TypeError
                                  else MkdirCallback (Some (IOError ''EACCES'')))\<rparr>"

definition full_fs :: file_system where
  "full_fs = sample_fs\<lparr>fs_writeStream := (\<lambda>p content. StreamError (IOError ''ENOSPC''))\<rparr>"

definition stalled_fs :: file_system where
  "stalled_fs = sample_fs\<lparr>fs_writeStream := (\<lambda>p content. NoEvent)\<rparr>"

section \<open>Properties of the string primitives\<close>

lemma js_split_not_Nil: "js_split sep s \<noteq> []"
  by (induction s) (auto split: list.splits)

lemma js_split_Cons_sep: "js_split sep (sep # cs) = [] # js_split sep cs"
  by simp

lemma js_split_Cons_other:
  "c \<noteq> sep \<Longrightarrow> js_split sep (c # cs) = (c # hd (js_split sep cs)) # tl (js_split sep cs)"
  using js_split_not_Nil [of sep cs] by (cases "js_split sep cs") auto

lemma hd_js_split: "hd (js_split sep s) = takeWhile (\<lambda>c. c \<noteq> sep) s"
  by (induction s) (auto simp: js_split_Cons_sep js_split_Cons_other simp del: js_split.simps(2))

lemma js_split_all_empty:
  "filter (\<lambda>w. w \<noteq> []) (js_split sep s) = [] \<Longrightarrow> s = replicate (length s) sep"
proof (induction s)
  case Nil
  then show ?case by simp
next
  case (Cons c cs)
  show ?case
  proof (cases "c = sep")
    case True
    with Cons show ?thesis by simp
  next
    case False
    with Cons.prems show ?thesis
      by (simp add: js_split_Cons_other del: js_split.simps(2))
  qed
qed

lemma js_split_tail_empty:
  "filter (\<lambda>w. w \<noteq> []) (tl (js_split sep s)) = [] \<Longrightarrow>
   dropWhile (\<lambda>c. c \<noteq> sep) s = replicate (length (dropWhile (\<lambda>c. c \<noteq> sep) s)) sep"
proof (induction s)
  case Nil
  then show ?case by simp
next
  case (Cons c cs)
  show ?case
  proof (cases "c = sep")
    case True
    with Cons.prems have "filter (\<lambda>w. w \<noteq> []) (js_split sep cs) = []" by simp
    then have "cs = replicate (length cs) sep" by (rule js_split_all_empty)
    with True show ?thesis by simp
  next
    case False
    with Cons show ?thesis
      by (simp add: js_split_Cons_other del: js_split.simps(2))
  qed
qed

lemma js_split_replicate_sep: "js_split sep (replicate n sep) = replicate (Suc n) []"
  by (induction n) auto

lemma js_split_segment_then_seps:
  "sep \<notin> set w \<Longrightarrow> js_split sep (w @ replicate n sep) = w # replicate n []"
proof (induction w)
  case Nil
  then show ?case by (simp add: js_split_replicate_sep)
next
  case (Cons c w)
  then have "c \<noteq> sep" and "js_split sep (w @ replicate n sep) = w # replicate n []"
    by auto
  then show ?case by (simp add: js_split_Cons_other del: js_split.simps(2))
qed

lemma segments_leading_seps:
  "filter (\<lambda>w. w \<noteq> []) (js_split sep (replicate m sep @ s)) =
   filter (\<lambda>w. w \<noteq> []) (js_split sep s)"
  by (induction m) auto

text \<open>
  The non-empty pieces of a string are exactly \<open>[w]\<close> when the string is the non-empty,
  separator-free \<open>w\<close> with separators before and after it.
\<close>

lemma single_segment_iff:
  "filter (\<lambda>w. w \<noteq> []) (js_split sep s) = [w] \<longleftrightarrow>
   w \<noteq> [] \<and> sep \<notin> set w \<and> (\<exists>m n. s = replicate m sep @ w @ replicate n sep)"
proof
  assume "filter (\<lambda>w. w \<noteq> []) (js_split sep s) = [w]"
  then show "w \<noteq> [] \<and> sep \<notin> set w \<and> (\<exists>m n. s = replicate m sep @ w @ replicate n sep)"
  proof (induction s)
    case Nil
    then show ?case by simp
  next
    case (Cons c cs)
    show ?case
    proof (cases "c = sep")
      case True
      with Cons.prems have "filter (\<lambda>w. w \<noteq> []) (js_split sep cs) = [w]" by simp
      from Cons.IH [OF this] obtain m n where
        w: "w \<noteq> []" "sep \<notin> set w" and cs: "cs = replicate m sep @ w @ replicate n sep"
        by blast
      from cs True have "c # cs = replicate (Suc m) sep @ w @ replicate n sep" by simp
      with w show ?thesis by blast
    next
      case False
      with Cons.prems have
        w: "w = c # hd (js_split sep cs)" and
        rest: "filter (\<lambda>w. w \<noteq> []) (tl (js_split sep cs)) = []"
        by (simp_all add: js_split_Cons_other del: js_split.simps(2))
      let ?d = "dropWhile (\<lambda>c. c \<noteq> sep) cs"
      from w have w': "w = c # takeWhile (\<lambda>c. c \<noteq> sep) cs" by (simp add: hd_js_split)
      have d: "?d = replicate (length ?d) sep" using rest by (rule js_split_tail_empty)
      have "c # cs = w @ ?d" using w' by simp
      with d have "c # cs = replicate 0 sep @ w @ replicate (length ?d) sep" by simp
      moreover have "sep \<notin> set w" using w' False by (auto dest: set_takeWhileD)
      moreover have "w \<noteq> []" using w' by simp
      ultimately show ?thesis by blast
    qed
  qed
next
  assume "w \<noteq> [] \<and> sep \<notin> set w \<and> (\<exists>m n. s = replicate m sep @ w @ replicate n sep)"
  then obtain m n where w: "w \<noteq> []" "sep \<notin> set w"
    and s: "s = replicate m sep @ w @ replicate n sep" by blast
  have "filter (\<lambda>w. w \<noteq> []) (js_split sep s) =
        filter (\<lambda>w. w \<noteq> []) (js_split sep (w @ replicate n sep))"
    unfolding s by (rule segments_leading_seps)
  also have "\<dots> = [w]" using w by (simp add: js_split_segment_then_seps)
  finally show "filter (\<lambda>w. w \<noteq> []) (js_split sep s) = [w]" .
qed

lemma isValidTargetDir_segments:
  "isValidTargetDir P (JStr I) \<longleftrightarrow>
   filter (\<lambda>segment. segment \<noteq> []) (js_split CHR ''/'' P) = [I]"
  by (cases "filter (\<lambda>segment. segment \<noteq> []) (js_split CHR ''/'' P)")
     (auto simp: isValidTargetDir_def array_get_def Let_def)

lemma js_replace_absent: "\<not> sublist pat s \<Longrightarrow> js_replace pat rep s = s"
proof (induction s)
  case Nil
  then show ?case by auto
next
  case (Cons c cs)
  then have "\<not> prefix pat (c # cs)" "\<not> sublist pat cs"
    by (auto simp: sublist_Cons_right)
  with Cons.IH show ?case by simp
qed

lemma js_replace_at_start: "js_replace pat rep (pat @ v) = rep @ v"
proof (cases "pat @ v")
  case Nil
  then show ?thesis by simp
next
  case (Cons a list)
  then have p: "prefix pat (a # list)" by (metis prefixI)
  from Cons have d: "drop (length pat) (a # list) = v" by (metis append_eq_conv_conj)
  show ?thesis unfolding Cons using p d by simp
qed

text \<open>
  When no occurrence of the pattern starts inside \<open>u\<close>, the occurrence after \<open>u\<close> is the
  leftmost one, and it is the one replaced; \<open>v\<close> is left as it is.
\<close>

lemma js_replace_first:
  "\<forall>i<length u. \<not> prefix pat (drop i (u @ pat @ v)) \<Longrightarrow>
   js_replace pat rep (u @ pat @ v) = u @ rep @ v"
proof (induction u)
  case Nil
  show ?case by (simp add: js_replace_at_start)
next
  case (Cons c u)
  from Cons.prems have "\<not> prefix pat (c # u @ pat @ v)" by force
  moreover have "\<forall>i<length u. \<not> prefix pat (drop i (u @ pat @ v))"
  proof (intro allI impI)
    fix i assume "i < length u"
    with Cons.prems have "\<not> prefix pat (drop (Suc i) ((c # u) @ pat @ v))" by force
    then show "\<not> prefix pat (drop i (u @ pat @ v))" by simp
  qed
  ultimately show ?case using Cons.IH by simp
qed

section \<open>Facts shared by the handler proofs\<close>

lemmas sample_defs = sample_runtime_def sample_pubkey_def
  sample_credential_def sample_json_def sample_event_def
  forged_credential_def forged_json_def forged_event_def
  malformed_credential_def malformed_json_def malformed_event_def
  sample_path_def sample_fs_def readonly_fs_def full_fs_def stalled_fs_def

text \<open>
  \<^verbatim>\<open>JSON.parse('')\<close> throws, and the empty string decodes to the empty string; in such a
  runtime a header on which the verifier returns has a non-empty credential left after the
  scheme prefix is removed.
\<close>

lemma auth_empty_credential:
  assumes "isl (json_parse rt (base64_decode rt []))"
    and "isValidAuthorizationHeader rt authorization = Inr pubkey"
  shows "js_replace ''Nostr '' [] authorization \<noteq> []"
proof
  assume "js_replace ''Nostr '' [] authorization = []"
  with assms(1) have "isl (isValidAuthorizationHeader rt authorization)"
    by (cases "json_parse rt (base64_decode rt [])") (simp_all add: isValidAuthorizationHeader_def)
  with assms(2) show False by simp
qed

lemma sample_auth:
  "isValidAuthorizationHeader sample_runtime (''Nostr '' @ sample_credential)
   = Inr (JStr sample_pubkey)"
  by (simp add: isValidAuthorizationHeader_def sample_defs)


lemma no_scheme_in_sample: "\<not> sublist ''Nostr '' sample_credential"
  unfolding sample_credential_def by code_simp

lemma handleOptions_keeps_other_headers:
  "name \<noteq> ''origin'' \<Longrightarrow> name \<noteq> ''methods'' \<Longrightarrow> name \<noteq> ''allowedHeaders'' \<Longrightarrow>
   map_of (res_headers (handleOptions req res)) name = map_of (res_headers res) name"
  by (simp add: handleOptions_def writeHead_def corsOptions_def res_end_def setHeader_def
      update_conv')

text \<open>
  \<open>handleOptions\<close> leaves the headers already on the response in place: a response that went
  through \<open>setCorsHeaders\<close> before the handler still carries the three CORS headers after it.
\<close>

lemma handleOptions_after_setCorsHeaders:
  "statusCode (handleOptions req (setCorsHeaders res)) = 204
   \<and> map_of (res_headers (handleOptions req (setCorsHeaders res))) ''Access-Control-Allow-Origin''
       = Some (Single ''*'')
   \<and> map_of (res_headers (handleOptions req (setCorsHeaders res))) ''Access-Control-Allow-Methods''
       = Some (Single ''GET, PUT, OPTIONS'')
   \<and> map_of (res_headers (handleOptions req (setCorsHeaders res))) ''Access-Control-Allow-Headers''
       = Some (Single ''Content-Type, Authorization'')"
  by (simp add: handleOptions_keeps_other_headers setCorsHeaders_def setHeader_def update_conv')
     (simp add: handleOptions_def writeHead_def res_end_def)

section \<open>The namespace authorizer\<close>

text \<open>
  C1. For every target directory \<open>P\<close> and identity string \<open>I\<close>, \<open>isValidTargetDir\<close> returns
  true exactly when splitting \<open>P\<close> on \<^verbatim>\<open>/\<close> and discarding the empty segments leaves the
  one segment \<open>I\<close> (compared as strings, so case-sensitively). In particular it is false for
  the empty path and for every path with two or more non-empty segments, whatever the
  identity.
\<close>

theorem isValidTargetDir_single_segment:
  "(isValidTargetDir P (JStr I) \<longleftrightarrow>
      filter (\<lambda>segment. segment \<noteq> []) (js_split CHR ''/'' P) = [I])
   \<and> \<not> isValidTargetDir [] (JStr I)
   \<and> (2 \<le> length (filter (\<lambda>segment. segment \<noteq> []) (js_split CHR ''/'' P))
        \<longrightarrow> \<not> isValidTargetDir P (JStr I))"
proof (intro conjI impI)
  show "isValidTargetDir P (JStr I) \<longleftrightarrow>
        filter (\<lambda>segment. segment \<noteq> []) (js_split CHR ''/'' P) = [I]"
    by (rule isValidTargetDir_segments)
  show "\<not> isValidTargetDir [] (JStr I)"
    by (simp add: isValidTargetDir_segments)
next
  assume "2 \<le> length (filter (\<lambda>segment. segment \<noteq> []) (js_split CHR ''/'' P))"
  then show "\<not> isValidTargetDir P (JStr I)"
    by (auto simp: isValidTargetDir_segments)
qed

theorem isValidTargetDir_single_segment_witness:
  "isValidTargetDir ''/abc123/'' (JStr ''abc123'')
   \<and> \<not> isValidTargetDir ''/ABC123/'' (JStr ''abc123'')
   \<and> \<not> isValidTargetDir [] (JStr ''abc123'')
   \<and> 2 \<le> length (filter (\<lambda>segment. segment \<noteq> []) (js_split CHR ''/'' ''abc123/notes.json''))
   \<and> \<not> isValidTargetDir ''abc123/notes.json'' (JStr ''abc123'')"
  using isValidTargetDir_single_segment [of "''/abc123/''" "''abc123''"]
    isValidTargetDir_single_segment [of "''/ABC123/''" "''abc123''"]
    isValidTargetDir_single_segment [of "''abc123/notes.json''" "''abc123''"]
  by simp

text \<open>
  C9, as stated: for every non-empty identity \<open>P\<close> and every target directory \<open>D\<close>, the
  equality check \<^verbatim>\<open>D === P\<close> holds if and only if \<open>isValidTargetDir D P\<close> does. It fails:
  the authorizer discards empty segments, so it accepts \<^verbatim>\<open>/abc123\<close> for the identity
  \<^verbatim>\<open>abc123\<close>, which the equality check rejects.
\<close>

theorem checks_not_equivalent:
  "''abc123'' \<noteq> [] \<and> ''/abc123'' \<noteq> ''abc123'' \<and> isValidTargetDir ''/abc123'' (JStr ''abc123'')"
  by (simp add: isValidTargetDir_segments)

text \<open>
  C9, amended: for every non-empty identity \<open>P\<close> that contains no \<^verbatim>\<open>/\<close> and every target
  directory \<open>D\<close>, the equality check implies the authorizer's, and the authorizer accepts
  exactly the strings that are \<open>P\<close> with any number of \<^verbatim>\<open>/\<close> before and after it. The
  first check therefore rejects every request the second would, and more; and \<open>handlePut\<close>,
  once the verifier has returned such a \<open>P\<close>, never answers through its second 403 branch
  ("Target directory structure is invalid"): no response it writes has that body. (The one
  response it can return without having written it is the caller's own, left open and
  untouched when an upload's stream never ends.)
\<close>

theorem equality_check_implies_isValidTargetDir:
  assumes "P \<noteq> []" and "CHR ''/'' \<notin> set P"
  shows "(D = P \<longrightarrow> isValidTargetDir D (JStr P))
       \<and> (isValidTargetDir D (JStr P) \<longleftrightarrow>
            (\<exists>m n. D = replicate m CHR ''/'' @ P @ replicate n CHR ''/''))
       \<and> (headers ''authorization'' = Some authorization
            \<and> isValidAuthorizationHeader rt authorization = Inr (JStr P) \<longrightarrow>
            (\<forall>r ops. handlePut rt fs req res unused headers D rootDir pathname path = Inr (r, ops)
               \<longrightarrow> body r \<noteq> ''Forbidden: Target directory structure is invalid''
                   \<or> r = res \<and> ops \<noteq> []))"
proof -
  have iff: "isValidTargetDir D (JStr P) \<longleftrightarrow>
      (\<exists>m n. D = replicate m CHR ''/'' @ P @ replicate n CHR ''/'')" for D
    using assms by (simp add: isValidTargetDir_segments single_segment_iff)
  have "P = replicate 0 CHR ''/'' @ P @ replicate 0 CHR ''/''" by simp
  then have self: "isValidTargetDir P (JStr P)" unfolding iff by blast
  have branch: "body r \<noteq> ''Forbidden: Target directory structure is invalid''
      \<or> r = res \<and> ops \<noteq> []"
    if "headers ''authorization'' = Some authorization"
      and "isValidAuthorizationHeader rt authorization = Inr (JStr P)"
      and "handlePut rt fs req res unused headers D rootDir pathname path = Inr (r, ops)"
    for r ops
    using that self
    by (auto simp: handlePut_def res_end_def unauthorized_message_def Let_def
        split: if_splits option.splits mkdir_outcome.splits stream_event.splits)
  from iff self branch show ?thesis by blast
qed

theorem equality_check_implies_isValidTargetDir_witness:
  "isValidTargetDir ''abc123'' (JStr ''abc123'')
   \<and> isValidTargetDir ''//abc123/'' (JStr ''abc123'')
   \<and> \<not> isValidTargetDir ''fedcba'' (JStr ''abc123'')"
proof -
  have a: "''abc123'' \<noteq> []" "CHR ''/'' \<notin> set ''abc123''" by simp_all
  note same = equality_check_implies_isValidTargetDir [OF a, THEN conjunct1]
  note iff = equality_check_implies_isValidTargetDir [OF a, THEN conjunct2, THEN conjunct1]
  have "''//abc123/'' = replicate 2 CHR ''/'' @ ''abc123'' @ replicate 1 CHR ''/''"
    by (simp add: numeral_2_eq_2)
  then have "isValidTargetDir ''//abc123/'' (JStr ''abc123'')"
    unfolding iff by (intro exI)
  moreover have "isValidTargetDir ''abc123'' (JStr ''abc123'')"
    using same [of "''abc123''"] by simp
  moreover have "\<not> isValidTargetDir ''fedcba'' (JStr ''abc123'')"
    by (simp add: isValidTargetDir_segments)
  ultimately show ?thesis by simp
qed

section \<open>The signed-event verifier\<close>

text \<open>
  C4 says that \<open>isValidAuthorizationHeader\<close> never throws to its caller and answers "no
  identity" on every decode or parse failure. The code has no handler around
  \<^verbatim>\<open>JSON.parse\<close>: whenever the decoded credential is not JSON, the SyntaxError leaves
  \<open>isValidAuthorizationHeader\<close>, and leaves \<open>handlePut\<close> as well, before any response is
  written.
\<close>

theorem isValidAuthorizationHeader_throws_on_bad_json:
  assumes "json_parse rt (base64_decode rt (js_replace ''Nostr '' [] authorization)) = Inl e"
  shows "isValidAuthorizationHeader rt authorization = Inl e
         \<and> handlePut rt fs req res unused [''authorization'' \<mapsto> authorization]
              targetDir rootDir pathname path = Inl e"
  using assms by (simp add: isValidAuthorizationHeader_def handlePut_def)

theorem isValidAuthorizationHeader_throws_on_bad_json_witness:
  "isValidAuthorizationHeader sample_runtime ''Nostr aGVsbG8='' = Inl SyntaxError
   \<and> handlePut sample_runtime sample_fs ''hello'' new_response ()
        [''authorization'' \<mapsto> ''Nostr aGVsbG8='']
        ''abc123'' ''data'' ''/abc123'' sample_path = Inl SyntaxError"
  using isValidAuthorizationHeader_throws_on_bad_json [of sample_runtime "''Nostr aGVsbG8=''"
      SyntaxError sample_fs "''hello''" new_response "()" "''abc123''" "''data''" "''/abc123''"
      sample_path]
  by (simp add: sample_defs)

text \<open>
  C10. The verifier does not need the scheme prefix \<^verbatim>\<open>Nostr \<close>, nor need it stand first:
  for a credential \<open>b\<close> that decodes and parses to an assertion the signature check accepts,
  the verifier returns the assertion's \<^verbatim>\<open>pubkey\<close> on \<open>b\<close> itself when \<open>b\<close> does not contain
  the prefix, and on \<open>b\<close> with the prefix inserted at any place where it becomes the leftmost
  occurrence. Only that leftmost occurrence is deleted: a second one stays.
\<close>

theorem isValidAuthorizationHeader_scheme_not_required:
  assumes "json_parse rt (base64_decode rt b) = Inr event"
    and "verifySignature rt event = Inr True"
  shows "(\<not> sublist ''Nostr '' b \<longrightarrow>
            isValidAuthorizationHeader rt b = get_property event ''pubkey'')
       \<and> (\<forall>u v. b = u @ v \<and> (\<forall>i<length u. \<not> prefix ''Nostr '' (drop i (u @ ''Nostr '' @ v))) \<longrightarrow>
            isValidAuthorizationHeader rt (u @ ''Nostr '' @ v) = get_property event ''pubkey'')
       \<and> js_replace ''Nostr '' [] (''Nostr '' @ ''Nostr '' @ w) = ''Nostr '' @ w"
proof (intro conjI allI impI)
  assume "\<not> sublist ''Nostr '' b"
  then have "js_replace ''Nostr '' [] b = b" by (rule js_replace_absent)
  with assms show "isValidAuthorizationHeader rt b = get_property event ''pubkey''"
    by (simp add: isValidAuthorizationHeader_def)
next
  fix u v
  assume "b = u @ v \<and> (\<forall>i<length u. \<not> prefix ''Nostr '' (drop i (u @ ''Nostr '' @ v)))"
  then have b: "b = u @ v" and "js_replace ''Nostr '' [] (u @ ''Nostr '' @ v) = u @ [] @ v"
    using js_replace_first [of u "''Nostr ''" v "[]"] by simp_all
  with assms show "isValidAuthorizationHeader rt (u @ ''Nostr '' @ v) = get_property event ''pubkey''"
    by (simp add: isValidAuthorizationHeader_def del: append_Cons)
next
  show "js_replace ''Nostr '' [] (''Nostr '' @ ''Nostr '' @ w) = ''Nostr '' @ w"
    by simp
qed

theorem isValidAuthorizationHeader_scheme_not_required_witness:
  "\<not> prefix ''Nostr '' sample_credential
   \<and> isValidAuthorizationHeader sample_runtime sample_credential = Inr (JStr sample_pubkey)
   \<and> \<not> prefix ''Nostr '' (take 4 sample_credential @ ''Nostr '' @ drop 4 sample_credential)
   \<and> isValidAuthorizationHeader sample_runtime
        (take 4 sample_credential @ ''Nostr '' @ drop 4 sample_credential)
       = Inr (JStr sample_pubkey)"
proof -
  let ?u = "take 4 sample_credential" and ?v = "drop 4 sample_credential"
  have p: "json_parse sample_runtime (base64_decode sample_runtime sample_credential)
      = Inr sample_event"
    by (simp add: sample_defs)
  have v: "verifySignature sample_runtime sample_event = Inr True"
    by (simp add: sample_defs)
  note bare = isValidAuthorizationHeader_scheme_not_required [OF p v, THEN conjunct1]
  note inside = isValidAuthorizationHeader_scheme_not_required [OF p v, THEN conjunct2,
      THEN conjunct1, rule_format, of ?u ?v]
  have g: "get_property sample_event ''pubkey'' = Inr (JStr sample_pubkey)"
    by (simp add: sample_event_def)
  have u: "?u = ''eyJp''" by (simp add: sample_credential_def)
  have first: "\<forall>i<length ?u. \<not> prefix ''Nostr '' (drop i (?u @ ''Nostr '' @ ?v))"
    unfolding u by (simp add: less_Suc_eq)
  have 1: "isValidAuthorizationHeader sample_runtime sample_credential = Inr (JStr sample_pubkey)"
    using bare no_scheme_in_sample g by simp
  have 2: "isValidAuthorizationHeader sample_runtime (?u @ ''Nostr '' @ ?v)
      = Inr (JStr sample_pubkey)"
    using inside first g by simp
  have 3: "\<not> prefix ''Nostr '' sample_credential" by (simp add: sample_credential_def)
  have 4: "\<not> prefix ''Nostr '' (?u @ ''Nostr '' @ ?v)" unfolding u by simp
  from 1 2 3 4 show ?thesis by simp
qed

section \<open>The write path\<close>

text \<open>
  C2 says that every PUT whose authorization header decodes and parses to an assertion that
  fails verification is answered 401, never 403 or 201. That is so when \<open>verifySignature\<close>
  returns false. When the verifier throws instead, as it does on an assertion it cannot
  serialise (an object with a \<^verbatim>\<open>pubkey\<close> and a \<^verbatim>\<open>sig\<close> and no other field, say),
  nothing catches the exception: it leaves \<open>isValidAuthorizationHeader\<close> and \<open>handlePut\<close>, and
  no response is written.
\<close>

theorem handlePut_unverified_assertion:
  assumes "headers ''authorization'' = Some authorization"
    and "json_parse rt (base64_decode rt (js_replace ''Nostr '' [] authorization)) = Inr event"
  shows "(verifySignature rt event = Inr False \<longrightarrow>
            (\<exists>r. handlePut rt fs req res unused headers targetDir rootDir pathname path = Inr (r, [])
               \<and> statusCode r = 401 \<and> ended r))
       \<and> (\<forall>e. verifySignature rt event = Inl e \<longrightarrow>
            isValidAuthorizationHeader rt authorization = Inl e
            \<and> handlePut rt fs req res unused headers targetDir rootDir pathname path = Inl e)"
  using assms by (simp add: handlePut_def isValidAuthorizationHeader_def res_end_def)

theorem handlePut_unverified_assertion_witness:
  "(\<exists>r. handlePut sample_runtime sample_fs ''hello'' new_response ()
          [''authorization'' \<mapsto> ''Nostr '' @ forged_credential]
          sample_pubkey ''data'' (''/'' @ sample_pubkey) sample_path = Inr (r, [])
       \<and> statusCode r = 401 \<and> ended r)
   \<and> isValidAuthorizationHeader sample_runtime (''Nostr '' @ malformed_credential)
       = Inl LibraryError
   \<and> handlePut sample_runtime sample_fs ''hello'' new_response ()
          [''authorization'' \<mapsto> ''Nostr '' @ malformed_credential]
          ''abc123'' ''data'' ''/abc123'' sample_path = Inl LibraryError"
proof -
  have 1: "json_parse sample_runtime (base64_decode sample_runtime
      (js_replace ''Nostr '' [] (''Nostr '' @ forged_credential))) = Inr forged_event"
    by (simp add: sample_defs)
  have 2: "verifySignature sample_runtime forged_event = Inr False"
    by (simp add: sample_defs)
  have 3: "json_parse sample_runtime (base64_decode sample_runtime
      (js_replace ''Nostr '' [] (''Nostr '' @ malformed_credential))) = Inr malformed_event"
    by (simp add: sample_defs)
  have 4: "verifySignature sample_runtime malformed_event = Inl LibraryError"
    by (simp add: sample_defs)
  have h: "[''authorization'' \<mapsto> a] ''authorization'' = Some a" for a :: string
    by simp
  note forged = handlePut_unverified_assertion [where rt = sample_runtime
      and headers = "[''authorization'' \<mapsto> ''Nostr '' @ forged_credential]"
      and fs = sample_fs and req = "''hello''" and res = new_response and unused = "()"
      and targetDir = sample_pubkey and rootDir = "''data''"
      and pathname = "''/'' @ sample_pubkey" and path = sample_path,
      OF h 1, THEN conjunct1, rule_format, OF 2]
  note malformed = handlePut_unverified_assertion [where rt = sample_runtime
      and headers = "[''authorization'' \<mapsto> ''Nostr '' @ malformed_credential]"
      and fs = sample_fs and req = "''hello''" and res = new_response and unused = "()"
      and targetDir = "''abc123''" and rootDir = "''data''"
      and pathname = "''/abc123''" and path = sample_path,
      OF h 3, THEN conjunct2, rule_format, OF 4]
  from forged malformed show ?thesis by simp
qed

text \<open>
  C3. A PUT whose assertion verifies and authenticates the identity \<open>A\<close> (a non-empty
  string, as every public key is), aimed at a target directory other than \<open>A\<close>, is answered
  403 ("wrong pubkey") and makes no file-system call: nothing is created or written. The
  runtime is one where the empty credential is not JSON, as in Node.
\<close>

theorem handlePut_wrong_namespace_403:
  assumes "headers ''authorization'' = Some authorization"
    and "isl (json_parse rt (base64_decode rt []))"
    and "isValidAuthorizationHeader rt authorization = Inr (JStr A)"
    and "A \<noteq> []"
    and "targetDir \<noteq> A"
  shows "\<exists>r. handlePut rt fs req res unused headers targetDir rootDir pathname path = Inr (r, [])
           \<and> statusCode r = 403 \<and> body r = ''Forbidden: wrong pubkey'' \<and> ended r"
  using assms(1,3,4,5) auth_empty_credential [OF assms(2,3)]
  by (simp add: handlePut_def res_end_def)

theorem handlePut_wrong_namespace_403_witness:
  "\<exists>r. handlePut sample_runtime sample_fs ''hello'' new_response ()
          [''authorization'' \<mapsto> ''Nostr '' @ sample_credential]
          ''fedcba'' ''data'' ''/fedcba'' sample_path = Inr (r, [])
       \<and> statusCode r = 403 \<and> body r = ''Forbidden: wrong pubkey'' \<and> ended r"
proof -
  have h: "[''authorization'' \<mapsto> ''Nostr '' @ sample_credential] ''authorization''
      = Some (''Nostr '' @ sample_credential)"
    by simp
  have e: "isl (json_parse sample_runtime (base64_decode sample_runtime []))"
    by (simp add: sample_defs)
  have a: "sample_pubkey \<noteq> []" "''fedcba'' \<noteq> sample_pubkey"
    by (simp_all add: sample_pubkey_def)
  show ?thesis
    by (rule handlePut_wrong_namespace_403 [where rt = sample_runtime
      and headers = "[''authorization'' \<mapsto> ''Nostr '' @ sample_credential]",
      OF h e sample_auth a])
qed

text \<open>
  C5 says that a PUT without an \<^verbatim>\<open>authorization\<close> header is answered 401. The code reads
  \<^verbatim>\<open>headers.authorization.replace\<close> first: with the header absent this is a TypeError, which
  leaves the handler before any status is set.
\<close>

theorem handlePut_missing_header_throws:
  "headers ''authorization'' = None \<Longrightarrow>
   handlePut rt fs req res unused headers targetDir rootDir pathname path = Inl TypeError"
  by (simp add: handlePut_def)

theorem handlePut_missing_header_throws_witness:
  "handlePut sample_runtime sample_fs ''hello'' new_response ()
     [''content-type'' \<mapsto> ''text/plain''] ''abc123'' ''data'' ''/abc123'' sample_path
   = Inl TypeError"
  using handlePut_missing_header_throws [of "[''content-type'' \<mapsto> ''text/plain'']"
      sample_runtime sample_fs "''hello''" new_response "()" "''abc123''" "''data''" "''/abc123''"
      sample_path]
  by simp



section \<open>The read path\<close>

text \<open>
  C7, as stated: for every GET request \<open>handleGet\<close> answers 404, without throwing past the
  handler, when the file at the joined path does not exist or cannot be read. It fails for a
  path that \<^verbatim>\<open>fs.readFile\<close> refuses at the call: with a NUL byte in the request path the
  call throws a TypeError, nothing catches it, and no response is sent.
\<close>

theorem handleGet_throws_on_nul_path:
  "fs_readFile sample_fs (path_join sample_path [''.'', ''data'', ''/a'' @ [CHR 0x00]])
     = ReadThrows TypeError
   \<and> handleGet sample_fs () new_response sample_path (''/a'' @ [CHR 0x00]) ''data''
     = Inl TypeError"
  by (simp add: handleGet_def sample_fs_def sample_path_def)

text \<open>
  C7, amended: \<open>handleGet\<close> reads the file at \<^verbatim>\<open>path.join('.', rootDir, pathname)\<close>. When
  \<^verbatim>\<open>fs.readFile\<close> reports an error through its callback (the file does not exist or cannot
  be read) the answer is 404 "File not found" and nothing is thrown; when it delivers the
  bytes the answer is 200 with the bytes as the body and the \<^verbatim>\<open>Content-Type\<close> that
  \<open>getContentType\<close> gives for the extension of that path: \<^verbatim>\<open>text/plain\<close> for \<^verbatim>\<open>.txt\<close>,
  \<^verbatim>\<open>text/html\<close> for \<^verbatim>\<open>.html\<close>, \<^verbatim>\<open>application/json\<close> for \<^verbatim>\<open>.json\<close> and
  \<^verbatim>\<open>application/octet-stream\<close> for every other extension. When \<^verbatim>\<open>fs.readFile\<close> throws at
  the call, the exception leaves the handler.
\<close>

theorem handleGet_response:
  "(let targetPath = path_join path [''.'', rootDir, pathname]
    in (\<forall>err. fs_readFile fs targetPath = ReadCallback (Inl err) \<longrightarrow>
          (\<exists>r. handleGet fs req res path pathname rootDir = Inr r
             \<and> statusCode r = 404 \<and> body r = ''File not found'' \<and> ended r))
       \<and> (\<forall>data. fs_readFile fs targetPath = ReadCallback (Inr data) \<longrightarrow>
          (\<exists>r. handleGet fs req res path pathname rootDir = Inr r
             \<and> statusCode r = 200 \<and> body r = data \<and> ended r
             \<and> map_of (res_headers r) ''Content-Type''
                 = Some (Single (getContentType (path_extname path targetPath)))))
       \<and> (\<forall>e. fs_readFile fs targetPath = ReadThrows e \<longrightarrow>
          handleGet fs req res path pathname rootDir = Inl e))
   \<and> getContentType ''.txt'' = ''text/plain''
   \<and> getContentType ''.html'' = ''text/html''
   \<and> getContentType ''.json'' = ''application/json''
   \<and> (ext \<noteq> ''.txt'' \<and> ext \<noteq> ''.html'' \<and> ext \<noteq> ''.json''
        \<longrightarrow> getContentType ext = ''application/octet-stream'')"
proof -
  have "getContentType ''.txt'' = ''text/plain''"
    "getContentType ''.html'' = ''text/html''"
    "getContentType ''.json'' = ''application/json''"
    "ext \<noteq> ''.txt'' \<and> ext \<noteq> ''.html'' \<and> ext \<noteq> ''.json''
        \<longrightarrow> getContentType ext = ''application/octet-stream''"
    by (simp_all add: getContentType_def)
  moreover have "let targetPath = path_join path [''.'', rootDir, pathname]
    in (\<forall>err. fs_readFile fs targetPath = ReadCallback (Inl err) \<longrightarrow>
          (\<exists>r. handleGet fs req res path pathname rootDir = Inr r
             \<and> statusCode r = 404 \<and> body r = ''File not found'' \<and> ended r))
       \<and> (\<forall>data. fs_readFile fs targetPath = ReadCallback (Inr data) \<longrightarrow>
          (\<exists>r. handleGet fs req res path pathname rootDir = Inr r
             \<and> statusCode r = 200 \<and> body r = data \<and> ended r
             \<and> map_of (res_headers r) ''Content-Type''
                 = Some (Single (getContentType (path_extname path targetPath)))))
       \<and> (\<forall>e. fs_readFile fs targetPath = ReadThrows e \<longrightarrow>
          handleGet fs req res path pathname rootDir = Inl e)"
    by (auto simp: handleGet_def Let_def res_end_def setHeader_def update_conv')
  ultimately show ?thesis by blast
qed

theorem handleGet_response_witness:
  "(\<exists>r. handleGet sample_fs () new_response sample_path ''/abc123'' ''data'' = Inr r
       \<and> statusCode r = 404 \<and> body r = ''File not found'' \<and> ended r)
   \<and> (\<exists>r. handleGet sample_fs () new_response sample_path ''/notes.json'' ''data'' = Inr r
       \<and> statusCode r = 200 \<and> body r = ''{}'' \<and> ended r
       \<and> map_of (res_headers r) ''Content-Type'' = Some (Single ''application/json''))
   \<and> getContentType ''.png'' = ''application/octet-stream''"
proof -
  have j: "path_join sample_path [''.'', ''data'', ''/abc123''] = ''data/abc123''"
    "path_join sample_path [''.'', ''data'', ''/notes.json''] = ''data/notes.json''"
    by (simp_all add: sample_path_def)
  have missing: "fs_readFile sample_fs ''data/abc123'' = ReadCallback (Inl (IOError ''ENOENT''))"
    by (simp add: sample_fs_def)
  have stored: "fs_readFile sample_fs ''data/notes.json'' = ReadCallback (Inr ''{}'')"
    by (simp add: sample_fs_def)
  have x: "path_extname sample_path ''data/notes.json'' = ''.json''"
    by (simp add: sample_path_def)
  note a = handleGet_response [where fs = sample_fs and path = sample_path
      and rootDir = "''data''" and pathname = "''/abc123''" and req = "()"
      and res = new_response and ext = "''.png''", unfolded Let_def j]
  note b = handleGet_response [where fs = sample_fs and path = sample_path
      and rootDir = "''data''" and pathname = "''/notes.json''" and req = "()"
      and res = new_response and ext = "''.png''", unfolded Let_def j]
  from a missing have 1: "\<exists>r. handleGet sample_fs () new_response sample_path ''/abc123'' ''data''
      = Inr r \<and> statusCode r = 404 \<and> body r = ''File not found'' \<and> ended r"
    by blast
  from b stored have "\<exists>r. handleGet sample_fs () new_response sample_path ''/notes.json'' ''data''
      = Inr r \<and> statusCode r = 200 \<and> body r = ''{}'' \<and> ended r
       \<and> map_of (res_headers r) ''Content-Type''
          = Some (Single (getContentType (path_extname sample_path ''data/notes.json'')))"
    by blast
  then have 2: "\<exists>r. handleGet sample_fs () new_response sample_path ''/notes.json'' ''data''
      = Inr r \<and> statusCode r = 200 \<and> body r = ''{}'' \<and> ended r
       \<and> map_of (res_headers r) ''Content-Type'' = Some (Single ''application/json'')"
    by (simp add: x getContentType_def)
  from a have 3: "getContentType ''.png'' = ''application/octet-stream''" by simp
  from 1 2 3 show ?thesis by simp
qed

section \<open>Preflight requests\<close>

text \<open>
  C8 says that the answer to an OPTIONS request has status 204 and carries the headers
  \<^verbatim>\<open>Access-Control-Allow-Origin\<close>, \<^verbatim>\<open>Access-Control-Allow-Methods\<close> and
  \<^verbatim>\<open>Access-Control-Allow-Headers\<close>. \<open>handleOptions\<close> does answer 204, but the object it
  hands to \<^verbatim>\<open>writeHead\<close> names its entries \<^verbatim>\<open>origin\<close>, \<^verbatim>\<open>methods\<close> and
  \<^verbatim>\<open>allowedHeaders\<close>, and it never calls \<open>setCorsHeaders\<close>: on a response with no header
  set beforehand, none of the three CORS headers is present afterwards.
\<close>

theorem handleOptions_sets_no_cors_header:
  "statusCode (handleOptions req new_response) = 204
   \<and> ended (handleOptions req new_response)
   \<and> res_headers (handleOptions req new_response) = corsOptions
   \<and> map_of (res_headers (handleOptions req new_response)) ''Access-Control-Allow-Origin'' = None
   \<and> map_of (res_headers (handleOptions req new_response)) ''Access-Control-Allow-Methods'' = None
   \<and> map_of (res_headers (handleOptions req new_response)) ''Access-Control-Allow-Headers'' = None"
  by (simp add: handleOptions_def writeHead_def corsOptions_def res_end_def setHeader_def
      new_response_def)

end
